theory Spec2Isabelle
  imports Main
begin

section \<open>Values, dictionaries and exceptions\<close>

text \<open>
  The order service works on Python dictionaries. A dictionary is a map from its string
  keys. Numbers are Python's unbounded integers (\<open>int\<close>); floating point prices are not
  part of this model. An item maps \<open>price\<close> and, optionally, \<open>qty\<close> to integers. The
  dictionaries that the collaborators exchange with the service (the authorization
  result, the persisted order, an audit payload) hold integers or strings.
\<close>

datatype val = VInt int | VStr string

type_synonym dict = "string \<rightharpoonup> val"

type_synonym item = "string \<rightharpoonup> int"

text \<open>
  An exception is a value. \<open>ValueError\<close>, \<open>PermissionError\<close> and \<open>KeyError\<close> are the
  ones the service itself can raise; \<open>OtherError cls msg\<close> is any other exception class
  a collaborator may raise (\<open>TimeoutError\<close>, \<open>RuntimeError\<close>, ...). A collaborator may
  raise any of the four.
\<close>

datatype error =
    ValueError string
  | PermissionError string
  | KeyError string
  | OtherError string string

section \<open>The collaborators\<close>

text \<open>
  The service holds three injected objects and calls one method of each:
  \<open>gateway.authorize_payment(user_id, amount)\<close>, \<open>repo.save_order(user_id, items, total,
  payment_id)\<close> and \<open>audit.track(event, payload)\<close>. Each is an arbitrary Python object, so
  a call may read and change a world \<open>'w\<close> (a mock's queue of responses, a data base) and
  either returns a value or raises. The record holds, for each collaborator, the method
  the service calls. The value \<open>track\<close> returns is discarded by the service.
\<close>

record 'w OrderService =
  gateway :: "int \<Rightarrow> int \<Rightarrow> 'w \<Rightarrow> (error + dict) \<times> 'w"
  repo :: "int \<Rightarrow> item list \<Rightarrow> int \<Rightarrow> val \<Rightarrow> 'w \<Rightarrow> (error + dict) \<times> 'w"
  audit :: "string \<Rightarrow> dict \<Rightarrow> 'w \<Rightarrow> (error + unit) \<times> 'w"

text \<open>
  The calls the service makes on its collaborators, with their arguments, in the order
  it makes them: what \<open>unittest.mock\<close> records and the tests assert on.
\<close>

datatype call =
    AuthorizePayment int int
  | SaveOrder int "item list" int val
  | Track string dict




section \<open>The total of an order\<close>

text \<open>
  \<^verbatim>\<open>total = sum(i["price"] * i.get("qty", 1) for i in items)\<close>

  \<open>i["price"]\<close> raises \<open>KeyError\<close> when the key is absent; \<open>i.get("qty", 1)\<close> is \<open>1\<close> then.
  \<open>sum\<close> starts from \<open>0\<close> and adds the terms from left to right; the first item that
  raises ends the evaluation.
\<close>

definition line_total :: "item \<Rightarrow> error + int" where
  "line_total i =
    (case i ''price'' of
       None \<Rightarrow> Inl (KeyError ''price'')
     | Some p \<Rightarrow> Inr (p * (case i ''qty'' of None \<Rightarrow> 1 | Some q \<Rightarrow> q)))"

fun sum_from :: "int \<Rightarrow> item list \<Rightarrow> error + int" where
  "sum_from acc [] = Inr acc"
| "sum_from acc (i # rest) =
    (case line_total i of
       Inl e \<Rightarrow> Inl e
     | Inr x \<Rightarrow> sum_from (acc + x) rest)"

definition compute_total :: "item list \<Rightarrow> error + int" where
  "compute_total items = sum_from 0 items"

section \<open>OrderService.create\_order\<close>

text \<open>
  The result of an invocation is the returned order or the raised exception, the calls
  made on the collaborators, and the world they leave. The subscripts
  \<open>auth["payment_id"]\<close> and \<open>order["id"]\<close> are evaluated before the call whose argument
  they are, and raise \<open>KeyError\<close> on an absent key; \<open>auth.get("status")\<close> is \<open>None\<close> on an
  absent key, which differs from \<open>"approved"\<close>.
\<close>

definition create_order ::
  "'w OrderService \<Rightarrow> int \<Rightarrow> item list \<Rightarrow> 'w \<Rightarrow> (error + dict) \<times> call list \<times> 'w" where
  "create_order self user_id items w =
    (if items = [] then (Inl (ValueError ''items cannot be empty''), [], w)
     else
      (case compute_total items of
         Inl e \<Rightarrow> (Inl e, [], w)
       | Inr tot \<Rightarrow>
          (case gateway self user_id tot w of
             (Inl e, w1) \<Rightarrow> (Inl e, [AuthorizePayment user_id tot], w1)
           | (Inr auth, w1) \<Rightarrow>
              (if auth ''status'' \<noteq> Some (VStr ''approved'') then
                 (case audit self ''order_denied''
                         [''user_id'' \<mapsto> VInt user_id, ''total'' \<mapsto> VInt tot] w1 of
                    (Inl e, w2) \<Rightarrow>
                      (Inl e,
                       [AuthorizePayment user_id tot,
                        Track ''order_denied''
                          [''user_id'' \<mapsto> VInt user_id, ''total'' \<mapsto> VInt tot]],
                       w2)
                  | (Inr u, w2) \<Rightarrow>
                      (Inl (PermissionError ''payment not approved''),
                       [AuthorizePayment user_id tot,
                        Track ''order_denied''
                          [''user_id'' \<mapsto> VInt user_id, ''total'' \<mapsto> VInt tot]],
                       w2))
               else
                 (case auth ''payment_id'' of
                    None \<Rightarrow>
                      (Inl (KeyError ''payment_id''), [AuthorizePayment user_id tot], w1)
                  | Some payment_id \<Rightarrow>
                     (case repo self user_id items tot payment_id w1 of
                        (Inl e, w2) \<Rightarrow>
                          (Inl e,
                           [AuthorizePayment user_id tot,
                            SaveOrder user_id items tot payment_id],
                           w2)
                      | (Inr order, w2) \<Rightarrow>
                         (case order ''id'' of
                            None \<Rightarrow>
                              (Inl (KeyError ''id''),
                               [AuthorizePayment user_id tot,
                                SaveOrder user_id items tot payment_id],
                               w2)
                          | Some order_id \<Rightarrow>
                             (case audit self ''order_created''
                                     [''order_id'' \<mapsto> order_id, ''total'' \<mapsto> VInt tot] w2 of
                                (Inl e, w3) \<Rightarrow>
                                  (Inl e,
                                   [AuthorizePayment user_id tot,
                                    SaveOrder user_id items tot payment_id,
                                    Track ''order_created''
                                      [''order_id'' \<mapsto> order_id, ''total'' \<mapsto> VInt tot]],
                                   w3)
                              | (Inr u, w3) \<Rightarrow>
                                  (Inr order,
                                   [AuthorizePayment user_id tot,
                                    SaveOrder user_id items tot payment_id,
                                    Track ''order_created''
                                      [''order_id'' \<mapsto> order_id, ''total'' \<mapsto> VInt tot]],
                                   w3)))))))))"

text \<open>
  The total as the specification words it: the sum over the items of price times
  quantity, the quantity being 1 for an item that gives none.
\<close>

definition quantity :: "item \<Rightarrow> int" where
  "quantity i = (case i ''qty'' of None \<Rightarrow> 1 | Some q \<Rightarrow> q)"

definition order_total :: "item list \<Rightarrow> int" where
  "order_total items = (\<Sum>i\<leftarrow>items. the (i ''price'') * quantity i)"

text \<open>The calls of an invocation, and the amount a call carries.\<close>

definition calls :: "'a \<times> call list \<times> 'w \<Rightarrow> call list" where
  "calls r = fst (snd r)"


section \<open>OrderServiceAsync.create\_order\<close>





section \<open>Test doubles\<close>

text \<open>
  The doubles of the test suite: each collaborator answers every call with a configured
  return value or exception (\<open>return_value\<close>, \<open>side_effect\<close>), and the world counts the
  calls received.
\<close>

definition mock :: "error + dict \<Rightarrow> error + dict \<Rightarrow> error + unit \<Rightarrow> nat OrderService" where
  "mock auth_result save_result track_result =
    \<lparr>gateway = (\<lambda>u a w. (auth_result, w + 1)),
     repo = (\<lambda>u its t p w. (save_result, w + 1)),
     audit = (\<lambda>ev pl w. (track_result, w + 1))\<rparr>"

definition approved :: "string \<Rightarrow> dict" where
  "approved pid = [''status'' \<mapsto> VStr ''approved'', ''payment_id'' \<mapsto> VStr pid]"

definition denied :: dict where
  "denied = [''status'' \<mapsto> VStr ''denied'']"

definition approved_without_payment_id :: dict where
  "approved_without_payment_id = [''status'' \<mapsto> VStr ''approved'']"

definition persisted :: "int \<Rightarrow> int \<Rightarrow> dict" where
  "persisted oid tot = [''id'' \<mapsto> VInt oid, ''total'' \<mapsto> VInt tot]"

definition item_with_qty :: "int \<Rightarrow> int \<Rightarrow> item" where
  "item_with_qty p q = [''price'' \<mapsto> p, ''qty'' \<mapsto> q]"

definition item_no_qty :: "int \<Rightarrow> item" where
  "item_no_qty p = [''price'' \<mapsto> p]"

section \<open>The steps of an invocation\<close>

lemma sum_from_priced:
  "\<forall>i\<in>set items. i ''price'' \<noteq> None \<Longrightarrow> sum_from acc items = Inr (acc + order_total items)"
proof (induction items arbitrary: acc)
  case Nil
  then show ?case by (simp add: order_total_def)
next
  case (Cons i rest)
  from Cons.prems obtain p where p: "i ''price'' = Some p" by auto
  have "line_total i = Inr (p * quantity i)"
    by (simp add: line_total_def quantity_def p)
  moreover have "sum_from (acc + p * quantity i) rest = Inr (acc + p * quantity i + order_total rest)"
    using Cons.IH Cons.prems by simp
  ultimately show ?case by (simp add: order_total_def p)
qed

lemma compute_total_priced:
  "\<forall>i\<in>set items. i ''price'' \<noteq> None \<Longrightarrow> compute_total items = Inr (order_total items)"
  using sum_from_priced [of items 0] by (simp add: compute_total_def)

lemma create_order_gateway_raises:
  assumes "items \<noteq> []" and "compute_total items = Inr tot"
    and "gateway self user_id tot w = (Inl e, w1)"
  shows "create_order self user_id items w = (Inl e, [AuthorizePayment user_id tot], w1)"
  using assms by (simp add: create_order_def)

lemma create_order_not_approved:
  assumes "items \<noteq> []" and "compute_total items = Inr tot"
    and "gateway self user_id tot w = (Inr auth, w1)"
    and "auth ''status'' \<noteq> Some (VStr ''approved'')"
    and "audit self ''order_denied'' [''user_id'' \<mapsto> VInt user_id, ''total'' \<mapsto> VInt tot] w1 = (r, w2)"
  shows "create_order self user_id items w =
    ((case r of Inl e \<Rightarrow> Inl e | Inr u \<Rightarrow> Inl (PermissionError ''payment not approved'')),
     [AuthorizePayment user_id tot,
      Track ''order_denied'' [''user_id'' \<mapsto> VInt user_id, ''total'' \<mapsto> VInt tot]], w2)"
  using assms by (simp add: create_order_def split: sum.splits)

lemma create_order_repo_raises:
  assumes "items \<noteq> []" and "compute_total items = Inr tot"
    and "gateway self user_id tot w = (Inr auth, w1)"
    and "auth ''status'' = Some (VStr ''approved'')"
    and "auth ''payment_id'' = Some pid"
    and "repo self user_id items tot pid w1 = (Inl e, w2)"
  shows "create_order self user_id items w =
    (Inl e, [AuthorizePayment user_id tot, SaveOrder user_id items tot pid], w2)"
  using assms by (simp add: create_order_def)

lemma create_order_saved:
  assumes "items \<noteq> []" and "compute_total items = Inr tot"
    and "gateway self user_id tot w = (Inr auth, w1)"
    and "auth ''status'' = Some (VStr ''approved'')"
    and "auth ''payment_id'' = Some pid"
    and "repo self user_id items tot pid w1 = (Inr order, w2)"
    and "order ''id'' = Some oid"
    and "audit self ''order_created'' [''order_id'' \<mapsto> oid, ''total'' \<mapsto> VInt tot] w2 = (r, w3)"
  shows "create_order self user_id items w =
    ((case r of Inl e \<Rightarrow> Inl e | Inr u \<Rightarrow> Inr order),
     [AuthorizePayment user_id tot, SaveOrder user_id items tot pid,
      Track ''order_created'' [''order_id'' \<mapsto> oid, ''total'' \<mapsto> VInt tot]], w3)"
  using assms by (simp add: create_order_def split: sum.splits)




section \<open>The approved order\<close>

text \<open>
  C1, as the code has it. For every non-empty list of items that each have a price: when
  \<open>authorize_payment\<close> returns a result whose status is \<open>"approved"\<close> and that holds a
  \<open>payment_id\<close>, \<open>save_order\<close> returns an order that holds an \<open>id\<close>, and \<open>track\<close>
  returns, then \<open>create_order\<close> makes exactly three calls, in this order:
  \<open>authorize_payment(user_id, total)\<close>, \<open>save_order(user_id, items, total, payment_id)\<close>
  with the \<open>payment_id\<close> of the authorization result, and
  \<open>track("order_created", {"order_id": order["id"], "total": total})\<close>; and it returns
  the order \<open>save_order\<close> returned, unchanged.
\<close>

theorem approved_order_is_saved_tracked_returned:
  assumes "items \<noteq> []"
    and "\<forall>i\<in>set items. i ''price'' \<noteq> None"
    and "gateway self user_id (order_total items) w = (Inr auth, w1)"
    and "auth ''status'' = Some (VStr ''approved'')"
    and "auth ''payment_id'' = Some payment_id"
    and "repo self user_id items (order_total items) payment_id w1 = (Inr order, w2)"
    and "order ''id'' = Some order_id"
    and "audit self ''order_created''
           [''order_id'' \<mapsto> order_id, ''total'' \<mapsto> VInt (order_total items)] w2 = (Inr u, w3)"
  shows "create_order self user_id items w =
    (Inr order,
     [AuthorizePayment user_id (order_total items),
      SaveOrder user_id items (order_total items) payment_id,
      Track ''order_created'' [''order_id'' \<mapsto> order_id, ''total'' \<mapsto> VInt (order_total items)]],
     w3)"
  using create_order_saved [OF assms(1) compute_total_priced [OF assms(2)] assms(3-8)] by simp

text \<open>
  The success scenario of the test suite: two items of total 25, payment \<open>pay_123\<close>,
  persisted order 99.
\<close>

theorem approved_order_is_saved_tracked_returned_witness:
  "create_order (mock (Inr (approved ''pay_123'')) (Inr (persisted 99 25)) (Inr ())) 1
     [item_with_qty 10 2, item_with_qty 5 1] 0 =
    (Inr (persisted 99 25),
     [AuthorizePayment 1 25,
      SaveOrder 1 [item_with_qty 10 2, item_with_qty 5 1] 25 (VStr ''pay_123''),
      Track ''order_created'' [''order_id'' \<mapsto> VInt 99, ''total'' \<mapsto> VInt 25]],
     3)"
  using approved_order_is_saved_tracked_returned
    [of "[item_with_qty 10 2, item_with_qty 5 1]"
        "mock (Inr (approved ''pay_123'')) (Inr (persisted 99 25)) (Inr ())" 1 0
        "approved ''pay_123''" 1 "VStr ''pay_123''" "persisted 99 25" 2 "VInt 99" "()" 3]
  by (simp add: mock_def approved_def persisted_def item_with_qty_def order_total_def quantity_def)

text \<open>
  C1 as stated asks nothing of an approved result but its status, and nothing of the
  repository and the audit sink. An approved result with no \<open>payment_id\<close> makes
  \<open>auth["payment_id"]\<close> raise \<open>KeyError\<close>: the repository and the audit sink are never
  called. When \<open>save_order\<close> raises, \<open>track\<close> is not called; when \<open>track\<close> raises, the
  persisted order is not returned.
\<close>

theorem approved_without_payment_id_counterexample:
  "approved_without_payment_id ''status'' = Some (VStr ''approved'')
   \<and> create_order (mock (Inr approved_without_payment_id) (Inr (persisted 99 10)) (Inr ())) 1
       [item_with_qty 10 1] 0 =
     (Inl (KeyError ''payment_id''), [AuthorizePayment 1 10], 1)
   \<and> create_order (mock (Inr (approved ''p1'')) (Inl (OtherError ''RuntimeError'' ''db down''))
       (Inr ())) 1 [item_with_qty 10 1] 0 =
     (Inl (OtherError ''RuntimeError'' ''db down''),
      [AuthorizePayment 1 10, SaveOrder 1 [item_with_qty 10 1] 10 (VStr ''p1'')], 2)
   \<and> create_order (mock (Inr (approved ''p1'')) (Inr (persisted 99 10))
       (Inl (OtherError ''RuntimeError'' ''audit down''))) 1 [item_with_qty 10 1] 0 =
     (Inl (OtherError ''RuntimeError'' ''audit down''),
      [AuthorizePayment 1 10, SaveOrder 1 [item_with_qty 10 1] 10 (VStr ''p1''),
       Track ''order_created'' [''order_id'' \<mapsto> VInt 99, ''total'' \<mapsto> VInt 10]], 3)"
  by (simp add: create_order_def compute_total_def line_total_def mock_def
      approved_without_payment_id_def approved_def persisted_def item_with_qty_def)

section \<open>The denied order\<close>

text \<open>
  C2, as the code has it. For every non-empty list of items that each have a price:
  when the authorization result's status is not \<open>"approved"\<close>, \<open>create_order\<close> makes exactly two calls,
  \<open>authorize_payment(user_id, total)\<close> and then
  \<open>track("order_denied", {"user_id": user_id, "total": total})\<close>, so the repository is
  never called; and the invocation fails: with \<open>PermissionError("payment not approved")\<close>
  when \<open>track\<close> returns, and with the exception of \<open>track\<close> when that call raises.
\<close>

theorem denied_order_is_tracked_not_saved:
  assumes "items \<noteq> []"
    and "\<forall>i\<in>set items. i ''price'' \<noteq> None"
    and "gateway self user_id (order_total items) w = (Inr auth, w1)"
    and "auth ''status'' \<noteq> Some (VStr ''approved'')"
    and "audit self ''order_denied''
           [''user_id'' \<mapsto> VInt user_id, ''total'' \<mapsto> VInt (order_total items)] w1 = (r, w2)"
  shows "calls (create_order self user_id items w) =
      [AuthorizePayment user_id (order_total items),
       Track ''order_denied'' [''user_id'' \<mapsto> VInt user_id, ''total'' \<mapsto> VInt (order_total items)]]
    \<and> fst (create_order self user_id items w) =
      (case r of Inl e \<Rightarrow> Inl e | Inr u \<Rightarrow> Inl (PermissionError ''payment not approved''))"
  using create_order_not_approved [OF assms(1) compute_total_priced [OF assms(2)] assms(3-5)]
  by (simp add: calls_def)

theorem denied_order_is_tracked_not_saved_witness:
  "calls (create_order (mock (Inr denied) (Inr (persisted 2 10)) (Inr ())) 7 [item_with_qty 10 1] 0) =
      [AuthorizePayment 7 10,
       Track ''order_denied'' [''user_id'' \<mapsto> VInt 7, ''total'' \<mapsto> VInt 10]]
    \<and> fst (create_order (mock (Inr denied) (Inr (persisted 2 10)) (Inr ())) 7 [item_with_qty 10 1] 0) =
      Inl (PermissionError ''payment not approved'')"
  using denied_order_is_tracked_not_saved
    [of "[item_with_qty 10 1]" "mock (Inr denied) (Inr (persisted 2 10)) (Inr ())" 7 0
        denied 1 "Inr ()" 2]
  by (simp add: mock_def denied_def item_with_qty_def order_total_def quantity_def)

text \<open>
  C2 as stated promises \<open>PermissionError\<close> whatever the audit sink does. When the
  \<open>"order_denied"\<close> call raises, that exception is what the caller gets.
\<close>

theorem denied_order_audit_raises_counterexample:
  "denied ''status'' \<noteq> Some (VStr ''approved'')
   \<and> create_order (mock (Inr denied) (Inr (persisted 2 10))
       (Inl (OtherError ''TimeoutError'' ''audit timeout''))) 7 [item_with_qty 10 1] 0 =
     (Inl (OtherError ''TimeoutError'' ''audit timeout''),
      [AuthorizePayment 7 10,
       Track ''order_denied'' [''user_id'' \<mapsto> VInt 7, ''total'' \<mapsto> VInt 10]], 2)"
  by (simp add: create_order_def compute_total_def line_total_def mock_def
      denied_def item_with_qty_def)

section \<open>The total\<close>



section \<open>The empty order\<close>

text \<open>
  C4. For every user id (and whatever the collaborators are), \<open>create_order\<close> on the
  empty item list raises \<open>ValueError("items cannot be empty")\<close>, calls no collaborator
  and leaves the world as it was.
\<close>

theorem create_order_empty:
  "create_order self user_id [] w = (Inl (ValueError ''items cannot be empty''), [], w)"
  by (simp add: create_order_def)

section \<open>Errors of the collaborators\<close>

text \<open>
  C5. For every non-empty list of items that each have a price: if
  \<open>authorize_payment\<close> raises an exception, \<open>create_order\<close> raises that same
  exception, and the authorization is the only call it has made: neither the
  repository nor the audit sink is called.
\<close>

theorem gateway_error_propagates:
  assumes "items \<noteq> []"
    and "\<forall>i\<in>set items. i ''price'' \<noteq> None"
    and "gateway self user_id (order_total items) w = (Inl e, w1)"
  shows "create_order self user_id items w =
    (Inl e, [AuthorizePayment user_id (order_total items)], w1)"
  using create_order_gateway_raises [OF assms(1) compute_total_priced [OF assms(2)] assms(3)] .

theorem gateway_error_propagates_witness:
  "create_order (mock (Inl (OtherError ''TimeoutError'' ''gateway timeout''))
       (Inr (persisted 1 6)) (Inr ())) 1 [item_with_qty 3 2] 0 =
    (Inl (OtherError ''TimeoutError'' ''gateway timeout''), [AuthorizePayment 1 6], 1)"
  using gateway_error_propagates
    [of "[item_with_qty 3 2]"
        "mock (Inl (OtherError ''TimeoutError'' ''gateway timeout'')) (Inr (persisted 1 6)) (Inr ())"
        1 0 "OtherError ''TimeoutError'' ''gateway timeout''" 1]
  by (simp add: mock_def item_with_qty_def order_total_def quantity_def)

text \<open>
  C6. For every non-empty list of items that each have a price: if the authorization
  returns an approved result and \<open>save_order\<close>, called with its \<open>payment_id\<close>, raises an
  exception, \<open>create_order\<close> raises that same exception, and its calls are the
  authorization and the persistence only: the audit sink is never called.
\<close>

theorem repository_error_propagates:
  assumes "items \<noteq> []"
    and "\<forall>i\<in>set items. i ''price'' \<noteq> None"
    and "gateway self user_id (order_total items) w = (Inr auth, w1)"
    and "auth ''status'' = Some (VStr ''approved'')"
    and "auth ''payment_id'' = Some payment_id"
    and "repo self user_id items (order_total items) payment_id w1 = (Inl e, w2)"
  shows "create_order self user_id items w =
    (Inl e,
     [AuthorizePayment user_id (order_total items),
      SaveOrder user_id items (order_total items) payment_id],
     w2)"
  using create_order_repo_raises [OF assms(1) compute_total_priced [OF assms(2)] assms(3-6)] .

theorem repository_error_propagates_witness:
  "create_order (mock (Inr (approved ''p1'')) (Inl (OtherError ''RuntimeError'' ''db down''))
       (Inr ())) 1 [item_with_qty 4 1] 0 =
    (Inl (OtherError ''RuntimeError'' ''db down''),
     [AuthorizePayment 1 4, SaveOrder 1 [item_with_qty 4 1] 4 (VStr ''p1'')], 2)"
  using repository_error_propagates
    [of "[item_with_qty 4 1]"
        "mock (Inr (approved ''p1'')) (Inl (OtherError ''RuntimeError'' ''db down'')) (Inr ())"
        1 0 "approved ''p1''" 1 "VStr ''p1''" "OtherError ''RuntimeError'' ''db down''" 2]
  by (simp add: mock_def approved_def item_with_qty_def order_total_def quantity_def)

text \<open>
  C9. An exception of \<open>track\<close> is not caught. For every non-empty list of items that
  each have a price and every authorization result: if the status is not \<open>"approved"\<close>
  and the \<open>"order_denied"\<close> call raises, the invocation fails with that exception (and
  not with \<open>PermissionError\<close>); if the order was approved and persisted and the
  \<open>"order_created"\<close> call raises, the invocation fails with that exception and the
  persisted order is not returned.
\<close>

theorem audit_error_propagates:
  assumes "items \<noteq> []"
    and "\<forall>i\<in>set items. i ''price'' \<noteq> None"
    and "gateway self user_id (order_total items) w = (Inr auth, w1)"
  shows "(auth ''status'' \<noteq> Some (VStr ''approved'')
        \<and> audit self ''order_denied''
            [''user_id'' \<mapsto> VInt user_id, ''total'' \<mapsto> VInt (order_total items)] w1 = (Inl e, w2)
      \<longrightarrow> create_order self user_id items w =
          (Inl e,
           [AuthorizePayment user_id (order_total items),
            Track ''order_denied''
              [''user_id'' \<mapsto> VInt user_id, ''total'' \<mapsto> VInt (order_total items)]],
           w2))
    \<and> (auth ''status'' = Some (VStr ''approved'')
        \<and> auth ''payment_id'' = Some payment_id
        \<and> repo self user_id items (order_total items) payment_id w1 = (Inr order, w2)
        \<and> order ''id'' = Some order_id
        \<and> audit self ''order_created''
            [''order_id'' \<mapsto> order_id, ''total'' \<mapsto> VInt (order_total items)] w2 = (Inl e, w3)
      \<longrightarrow> create_order self user_id items w =
          (Inl e,
           [AuthorizePayment user_id (order_total items),
            SaveOrder user_id items (order_total items) payment_id,
            Track ''order_created''
              [''order_id'' \<mapsto> order_id, ''total'' \<mapsto> VInt (order_total items)]],
           w3))"
proof -
  note t = compute_total_priced [OF assms(2)]
  have denied_branch: "create_order self user_id items w =
          (Inl e,
           [AuthorizePayment user_id (order_total items),
            Track ''order_denied''
              [''user_id'' \<mapsto> VInt user_id, ''total'' \<mapsto> VInt (order_total items)]],
           w2)"
    if "auth ''status'' \<noteq> Some (VStr ''approved'')"
      and "audit self ''order_denied''
            [''user_id'' \<mapsto> VInt user_id, ''total'' \<mapsto> VInt (order_total items)] w1 = (Inl e, w2)"
    using create_order_not_approved [OF assms(1) t assms(3) that] by simp
  have approved_branch: "create_order self user_id items w =
          (Inl e,
           [AuthorizePayment user_id (order_total items),
            SaveOrder user_id items (order_total items) payment_id,
            Track ''order_created''
              [''order_id'' \<mapsto> order_id, ''total'' \<mapsto> VInt (order_total items)]],
           w3)"
    if "auth ''status'' = Some (VStr ''approved'')"
      and "auth ''payment_id'' = Some payment_id"
      and "repo self user_id items (order_total items) payment_id w1 = (Inr order, w2)"
      and "order ''id'' = Some order_id"
      and "audit self ''order_created''
            [''order_id'' \<mapsto> order_id, ''total'' \<mapsto> VInt (order_total items)] w2 = (Inl e, w3)"
    using create_order_saved [OF assms(1) t assms(3) that] by simp
  from denied_branch approved_branch show ?thesis by blast
qed

theorem audit_error_propagates_witness:
  "create_order (mock (Inr denied) (Inr (persisted 2 10))
       (Inl (OtherError ''RuntimeError'' ''audit down''))) 7 [item_with_qty 10 1] 0 =
     (Inl (OtherError ''RuntimeError'' ''audit down''),
      [AuthorizePayment 7 10,
       Track ''order_denied'' [''user_id'' \<mapsto> VInt 7, ''total'' \<mapsto> VInt 10]], 2)
   \<and> create_order (mock (Inr (approved ''p1'')) (Inr (persisted 2 10))
       (Inl (OtherError ''RuntimeError'' ''audit down''))) 7 [item_with_qty 10 1] 0 =
     (Inl (OtherError ''RuntimeError'' ''audit down''),
      [AuthorizePayment 7 10, SaveOrder 7 [item_with_qty 10 1] 10 (VStr ''p1''),
       Track ''order_created'' [''order_id'' \<mapsto> VInt 2, ''total'' \<mapsto> VInt 10]], 3)"
  using audit_error_propagates
    [where items = "[item_with_qty 10 1]"
       and self = "mock (Inr denied) (Inr (persisted 2 10))
           (Inl (OtherError ''RuntimeError'' ''audit down''))"
       and user_id = 7 and w = 0 and auth = denied and ?w1.0 = 1
       and e = "OtherError ''RuntimeError'' ''audit down''" and ?w2.0 = 2]
    audit_error_propagates
    [where items = "[item_with_qty 10 1]"
       and self = "mock (Inr (approved ''p1'')) (Inr (persisted 2 10))
           (Inl (OtherError ''RuntimeError'' ''audit down''))"
       and user_id = 7 and w = 0 and auth = "approved ''p1''" and ?w1.0 = 1
       and e = "OtherError ''RuntimeError'' ''audit down''" and ?w2.0 = 2
       and payment_id = "VStr ''p1''" and order = "persisted 2 10" and order_id = "VInt 2"
       and ?w3.0 = 3]
  by (simp add: mock_def denied_def approved_def persisted_def item_with_qty_def
      order_total_def quantity_def)

section \<open>The two execution modes\<close>


section \<open>The number of calls\<close>



section \<open>The status is read with a default\<close>

text \<open>
  C10, as the code has it. For every non-empty list of items that each have a price:
  if the authorization result has no \<open>status\<close> key, or has one whose value is not \<open>"approved"\<close>,
  \<open>create_order\<close> takes the denied path: its calls are the authorization and one
  \<open>track("order_denied", {"user_id": user_id, "total": total})\<close>, the repository is not
  called, and the invocation fails with \<open>PermissionError("payment not approved")\<close> when
  \<open>track\<close> returns (with the exception of \<open>track\<close> when that call raises). The absent key
  raises no \<open>KeyError\<close>.
\<close>

theorem absent_status_takes_denied_path:
  assumes "items \<noteq> []"
    and "\<forall>i\<in>set items. i ''price'' \<noteq> None"
    and "gateway self user_id (order_total items) w = (Inr auth, w1)"
    and "auth ''status'' = None \<or> (\<exists>v. auth ''status'' = Some v \<and> v \<noteq> VStr ''approved'')"
    and "audit self ''order_denied''
           [''user_id'' \<mapsto> VInt user_id, ''total'' \<mapsto> VInt (order_total items)] w1 = (r, w2)"
  shows "create_order self user_id items w =
    ((case r of Inl e \<Rightarrow> Inl e | Inr u \<Rightarrow> Inl (PermissionError ''payment not approved'')),
     [AuthorizePayment user_id (order_total items),
      Track ''order_denied'' [''user_id'' \<mapsto> VInt user_id, ''total'' \<mapsto> VInt (order_total items)]],
     w2)"
proof -
  from assms(4) have "auth ''status'' \<noteq> Some (VStr ''approved'')" by auto
  from create_order_not_approved [OF assms(1) compute_total_priced [OF assms(2)] assms(3) this assms(5)]
  show ?thesis .
qed

text \<open>The gateway answers with the empty dictionary.\<close>

theorem absent_status_takes_denied_path_witness:
  "create_order (mock (Inr Map.empty) (Inr (persisted 2 10)) (Inr ())) 1 [item_no_qty 10] 0 =
    (Inl (PermissionError ''payment not approved''),
     [AuthorizePayment 1 10,
      Track ''order_denied'' [''user_id'' \<mapsto> VInt 1, ''total'' \<mapsto> VInt 10]], 2)"
  using absent_status_takes_denied_path
    [of "[item_no_qty 10]" "mock (Inr Map.empty) (Inr (persisted 2 10)) (Inr ())" 1 0
        Map.empty 1 "Inr ()" 2]
  by (simp add: mock_def item_no_qty_def order_total_def quantity_def)

text \<open>
  C10 as stated promises \<open>PermissionError\<close> whatever the audit sink does. With no
  \<open>status\<close> key the denied path is taken, and when its \<open>"order_denied"\<close> call raises,
  that exception is what the caller gets.
\<close>

theorem absent_status_audit_raises_counterexample:
  "(Map.empty :: dict) ''status'' = None
   \<and> create_order (mock (Inr Map.empty) (Inr (persisted 2 10))
       (Inl (OtherError ''TimeoutError'' ''audit timeout''))) 1 [item_no_qty 10] 0 =
     (Inl (OtherError ''TimeoutError'' ''audit timeout''),
      [AuthorizePayment 1 10,
       Track ''order_denied'' [''user_id'' \<mapsto> VInt 1, ''total'' \<mapsto> VInt 10]], 2)"
  by (simp add: create_order_def compute_total_def line_total_def mock_def item_no_qty_def)

end
